theory Spec2Isabelle
  imports Main
begin

section \<open>Python values used by \<^verbatim>\<open>src/mcp/tools.py\<close>\<close>

text \<open>
  The functions raise \<^verbatim>\<open>ValueError\<close>; a call that leaves out a parameter without a
  default raises \<^verbatim>\<open>TypeError\<close> before the body runs. Every function returns a dictionary; a
  dictionary is kept as the list of its items in insertion order, so that the set of keys of
  a result can be read off.
\<close>

datatype error = ValueError string | TypeError string

datatype json =
    JNull
  | JStr string
  | JInt int
  | JObj "(string \<times> json) list"
  | JList "json list"

text \<open>
  A string argument is \<open>None\<close> or a string. \<^verbatim>\<open>if x:\<close> and \<^verbatim>\<open>not x\<close> test Python
  truthiness: \<open>None\<close> and the empty string are both false.
\<close>

definition truthy :: "string option \<Rightarrow> bool" where
  "truthy x = (case x of None \<Rightarrow> False | Some s \<Rightarrow> s \<noteq> [])"

text \<open>What an f-string prints for a value that is \<open>None\<close> or a string.\<close>

definition fstr :: "string option \<Rightarrow> string" where
  "fstr x = (case x of None \<Rightarrow> ''None'' | Some s \<Rightarrow> s)"

definition json_opt :: "string option \<Rightarrow> json" where
  "json_opt x = (case x of None \<Rightarrow> JNull | Some s \<Rightarrow> JStr s)"

definition first :: "'a list \<Rightarrow> 'a option" where
  "first xs = (case xs of [] \<Rightarrow> None | x # _ \<Rightarrow> Some x)"

subsection \<open>Decimal digits\<close>

definition digits :: string where
  "digits = ''0123456789''"

definition digit_char :: "nat \<Rightarrow> char" where
  "digit_char n = digits ! (n mod 10)"

text \<open>The value of a digit is its position among the ten digits.\<close>

definition digit_val :: "char \<Rightarrow> nat" where
  "digit_val c = length (takeWhile (\<lambda>d. d \<noteq> c) digits)"

definition is_digit :: "char \<Rightarrow> bool" where
  "is_digit c = (c \<in> set digits)"

definition is_digit19 :: "char \<Rightarrow> bool" where
  "is_digit19 c = (c \<in> set ''123456789'')"

text \<open>\<^verbatim>\<open>str(n)\<close> for a non-negative integer.\<close>

fun str_nat :: "nat \<Rightarrow> string" where
  "str_nat n = (if n < 10 then [digit_char n] else str_nat (n div 10) @ [digit_char (n mod 10)])"

declare str_nat.simps [simp del]

text \<open>The conversion \<^verbatim>\<open>%0wd\<close>: decimal, padded with zeros on the left to width \<open>w\<close>.\<close>

definition fmt_d :: "nat \<Rightarrow> nat \<Rightarrow> string" where
  "fmt_d w n = replicate (w - length (str_nat n)) (CHR ''0'') @ str_nat n"

text \<open>\<^verbatim>\<open>int(s)\<close> on a run of digits that may follow blanks.\<close>

definition int_of_digits :: "string \<Rightarrow> nat" where
  "int_of_digits s = foldl (\<lambda>a c. 10 * a + digit_val c) 0 (dropWhile (\<lambda>c. c = CHR '' '') s)"

section \<open>\<^verbatim>\<open>datetime\<close>\<close>

text \<open>A naive \<^verbatim>\<open>datetime.datetime\<close>: the module never attaches a time zone.\<close>

record datetime =
  year :: nat
  month :: nat
  day :: nat
  hour :: nat
  minute :: nat
  second :: nat
  microsecond :: nat

definition is_leap :: "nat \<Rightarrow> bool" where
  "is_leap y = (y mod 4 = 0 \<and> (y mod 100 \<noteq> 0 \<or> y mod 400 = 0))"

definition days_in_month :: "nat \<Rightarrow> nat \<Rightarrow> nat" where
  "days_in_month y m =
     (if m = 2 then (if is_leap y then 29 else 28)
      else if m = 4 \<or> m = 6 \<or> m = 9 \<or> m = 11 then 30 else 31)"

text \<open>
  \<^verbatim>\<open>datetime.strptime(s, "%Y-%m-%d")\<close>. The library turns the format into the regular
  expression
  \<^verbatim>\<open>(?P<Y>\d\d\d\d)-(?P<m>1[0-2]|0[1-9]|[1-9])-(?P<d>3[0-1]|[1-2]\d|0[1-9]|[1-9]| [1-9])\<close>,
  matches it at the start of the string, and raises \<^verbatim>\<open>ValueError\<close> when there is no match,
  when characters remain after the match, or when the three numbers are not a date of the
  calendar (years run from 1 to 9999). Each piece below returns its matches as
  (matched text, rest), in the order in which the alternatives are tried; the first complete
  match is the one the library uses. Strings are ASCII here. The result \<open>None\<close> stands for
  the \<^verbatim>\<open>ValueError\<close>.
\<close>

definition re_one :: "(char \<Rightarrow> bool) \<Rightarrow> string \<Rightarrow> (string \<times> string) list" where
  "re_one P s = (case s of a # rest \<Rightarrow> if P a then [([a], rest)] else [] | [] \<Rightarrow> [])"

definition re_two ::
  "(char \<Rightarrow> bool) \<Rightarrow> (char \<Rightarrow> bool) \<Rightarrow> string \<Rightarrow> (string \<times> string) list" where
  "re_two P Q s =
     (case s of a # b # rest \<Rightarrow> if P a \<and> Q b then [([a, b], rest)] else [] | _ \<Rightarrow> [])"

text \<open>One expression after another: every match of the first, in order, continued by
  every match of the second on what is left, which is the order of backtracking.\<close>

definition re_seq ::
  "(string \<Rightarrow> ('a \<times> string) list) \<Rightarrow> (string \<Rightarrow> ('b \<times> string) list)
     \<Rightarrow> string \<Rightarrow> (('a \<times> 'b) \<times> string) list" where
  "re_seq p q s = concat (map (\<lambda>(a, r). map (\<lambda>(b, r'). ((a, b), r')) (q r)) (p s))"

definition re_dash :: "string \<Rightarrow> (string \<times> string) list" where
  "re_dash = re_one (\<lambda>c. c = CHR ''-'')"

definition re_Y :: "string \<Rightarrow> (string \<times> string) list" where
  "re_Y s =
     (case s of
        a # b # c # d # rest \<Rightarrow>
          if is_digit a \<and> is_digit b \<and> is_digit c \<and> is_digit d then [([a, b, c, d], rest)]
          else []
      | _ \<Rightarrow> [])"

definition re_m :: "string \<Rightarrow> (string \<times> string) list" where
  "re_m s =
     re_two (\<lambda>c. c = CHR ''1'') (\<lambda>c. c \<in> set ''012'') s
     @ re_two (\<lambda>c. c = CHR ''0'') is_digit19 s
     @ re_one is_digit19 s"

definition re_d :: "string \<Rightarrow> (string \<times> string) list" where
  "re_d s =
     re_two (\<lambda>c. c = CHR ''3'') (\<lambda>c. c \<in> set ''01'') s
     @ re_two (\<lambda>c. c \<in> set ''12'') is_digit s
     @ re_two (\<lambda>c. c = CHR ''0'') is_digit19 s
     @ re_one is_digit19 s
     @ re_two (\<lambda>c. c = CHR '' '') is_digit19 s"

definition re_ymd ::
  "string \<Rightarrow> ((string \<times> string \<times> string \<times> string \<times> string) \<times> string) list" where
  "re_ymd = re_seq re_Y (re_seq re_dash (re_seq re_m (re_seq re_dash re_d)))"

definition strptime_ymd :: "string \<Rightarrow> datetime option" where
  "strptime_ymd s =
     (case first (re_ymd s) of
        None \<Rightarrow> None
      | Some ((Y, _, m, _, d), rest) \<Rightarrow>
          if rest \<noteq> [] then None
          else
            let y = int_of_digits Y; mo = int_of_digits m; dd = int_of_digits d
            in if 1 \<le> y \<and> 1 \<le> mo \<and> mo \<le> 12 \<and> 1 \<le> dd \<and> dd \<le> days_in_month y mo
               then Some \<lparr>year = y, month = mo, day = dd,
                          hour = 0, minute = 0, second = 0, microsecond = 0\<rparr>
               else None)"

text \<open>The dates of the calendar, and the text \<^verbatim>\<open>YYYY-MM-DD\<close> of one
  (\<^verbatim>\<open>"%04d-%02d-%02d" % (y, m, d)\<close>).\<close>

definition valid_date :: "nat \<Rightarrow> nat \<Rightarrow> nat \<Rightarrow> bool" where
  "valid_date y m d =
     (1 \<le> y \<and> y \<le> 9999 \<and> 1 \<le> m \<and> m \<le> 12 \<and> 1 \<le> d \<and> d \<le> days_in_month y m)"

definition ymd_text :: "nat \<Rightarrow> nat \<Rightarrow> nat \<Rightarrow> string" where
  "ymd_text y m d = fmt_d 4 y @ ''-'' @ fmt_d 2 m @ ''-'' @ fmt_d 2 d"

text \<open>\<^verbatim>\<open>datetime.isoformat()\<close> of a naive value: the fraction is printed only when the
  microsecond is not zero.\<close>

definition isoformat :: "datetime \<Rightarrow> string" where
  "isoformat d =
     fmt_d 4 (year d) @ ''-'' @ fmt_d 2 (month d) @ ''-'' @ fmt_d 2 (day d) @ ''T''
     @ fmt_d 2 (hour d) @ '':'' @ fmt_d 2 (minute d) @ '':'' @ fmt_d 2 (second d)
     @ (if microsecond d \<noteq> 0 then ''.'' @ fmt_d 6 (microsecond d) else [])"

section \<open>Floating point\<close>

text \<open>
  \<^verbatim>\<open>get_analytics\<close> computes its score in Python floats, which are IEEE 754 binary64
  numbers: \<^verbatim>\<open>completed / total\<close> is the quotient of two integers rounded to the nearest
  binary64 value (ties to the even significand), the product with \<open>100\<close> is rounded the same
  way, and \<^verbatim>\<open>int\<close> cuts the fraction off. Only finite values that are not negative occur;
  such a value is kept exactly, as the pair \<open>(m, e)\<close> that stands for \<open>m * 2 ^ e\<close>.
  Values large enough to overflow (\<open>2 ^ 1024\<close> and more) do not occur: the quotient is at
  most 1 and the product at most 100.
\<close>

type_synonym pyfloat = "int \<times> int"

text \<open>\<^verbatim>\<open>n.bit_length()\<close>: the number of binary digits of a positive integer.\<close>

function bit_length :: "int \<Rightarrow> nat" where
  "bit_length n = (if n \<le> 0 then 0 else Suc (bit_length (n div 2)))"
  by pat_completeness auto
termination
  by (relation "measure nat") auto

declare bit_length.simps [simp del]

definition round_half_even :: "int \<Rightarrow> int \<Rightarrow> int" where
  "round_half_even num den =
     (let f = num div den; r = num mod den
      in if 2 * r < den then f
         else if den < 2 * r then f + 1
         else if even f then f else f + 1)"

text \<open>\<open>scaled_le q d p\<close> is \<open>q * 2 ^ d \<le> p\<close> for an exponent \<open>d\<close> of either sign.\<close>

definition scaled_le :: "int \<Rightarrow> int \<Rightarrow> int \<Rightarrow> bool" where
  "scaled_le q d p = (if 0 \<le> d then q * 2 ^ nat d \<le> p else q \<le> p * 2 ^ nat (- d))"

text \<open>
  The binary64 value nearest to the fraction \<open>p / q\<close> (\<open>p\<close> not negative, \<open>q\<close> positive).
  With \<open>e\<close> the exponent of the binade of \<open>p / q\<close>, not below \<open>-1022\<close> (where the subnormal
  numbers begin), the representable values around \<open>p / q\<close> are the multiples of
  \<open>2 ^ (e - 52)\<close>.
\<close>

definition float_of_frac :: "int \<Rightarrow> int \<Rightarrow> pyfloat" where
  "float_of_frac p q =
     (if p = 0 then (0, 0)
      else
        let d = int (bit_length p) - int (bit_length q);
            e = max (if scaled_le q d p then d else d - 1) (- 1022);
            x = e - 52
        in (if 0 \<le> x then round_half_even p (q * 2 ^ nat x)
            else round_half_even (p * 2 ^ nat (- x)) q, x))"

text \<open>\<^verbatim>\<open>a / b\<close> on integers that are not negative, \<open>b\<close> positive.\<close>

definition truediv :: "int \<Rightarrow> int \<Rightarrow> pyfloat" where
  "truediv a b = float_of_frac a b"

definition float_of_int :: "int \<Rightarrow> pyfloat" where
  "float_of_int n = float_of_frac n 1"

definition float_mul :: "pyfloat \<Rightarrow> pyfloat \<Rightarrow> pyfloat" where
  "float_mul a b =
     (let n = fst a * fst b; e = snd a + snd b
      in if 0 \<le> e then float_of_frac (n * 2 ^ nat e) 1 else float_of_frac n (2 ^ nat (- e)))"

text \<open>\<^verbatim>\<open>int(x)\<close> on a float that is not negative.\<close>

definition int_of_float :: "pyfloat \<Rightarrow> int" where
  "int_of_float x = (if 0 \<le> snd x then fst x * 2 ^ nat (snd x) else fst x div 2 ^ nat (- snd x))"

section \<open>The task table\<close>

text \<open>
  Modelled from the spec: the class \<^verbatim>\<open>Task\<close> of \<^verbatim>\<open>src/models/task.py\<close> and the engine of
  \<^verbatim>\<open>src/db/session.py\<close> are not among the sources. The columns are those the functions
  read and write, with the optionality the specification gives them: the identifier is
  generated at creation, \<open>description\<close>, \<open>due_date\<close> and \<open>tags\<close> are optional, \<open>created_at\<close> is
  set at insert and \<open>updated_at\<close> on every patch.
\<close>

record task =
  t_id :: nat
  t_user_id :: string
  t_title :: string
  t_description :: "string option"
  t_priority :: string
  t_status :: string
  t_due_date :: "datetime option"
  t_tags :: "string option"
  t_created_at :: "datetime option"
  t_updated_at :: "datetime option"

text \<open>
  The table is the list of its rows in the order in which the store returns them, with the
  next identifier the store hands out.
\<close>

record store =
  rows :: "task list"
  next_id :: nat

text \<open>The primary key is unique, and every key in use was handed out before.\<close>

definition wf_store :: "store \<Rightarrow> bool" where
  "wf_store db = (distinct (map t_id (rows db)) \<and> list_all (\<lambda>t. t_id t < next_id db) (rows db))"

text \<open>
  Modelled from the spec: \<^verbatim>\<open>session.add\<close> of a new object followed by \<^verbatim>\<open>commit\<close> and
  \<^verbatim>\<open>refresh\<close> inserts one row, with the generated identifier and the insert time.
\<close>

definition session_insert :: "datetime \<Rightarrow> task \<Rightarrow> store \<Rightarrow> task \<times> store" where
  "session_insert now t db =
     (let t' = t\<lparr>t_id := next_id db, t_created_at := Some now\<rparr>
      in (t', db\<lparr>rows := rows db @ [t'], next_id := Suc (next_id db)\<rparr>))"

text \<open>\<^verbatim>\<open>session.add\<close> of an object that was loaded, then \<^verbatim>\<open>commit\<close>: the row with its
  primary key takes the object's values.\<close>

definition session_add :: "task \<Rightarrow> store \<Rightarrow> store" where
  "session_add t db = db\<lparr>rows := map (\<lambda>r. if t_id r = t_id t then t else r) (rows db)\<rparr>"

text \<open>\<^verbatim>\<open>session.delete\<close> then \<^verbatim>\<open>commit\<close>: the row with the object's primary key goes.\<close>

definition session_delete :: "task \<Rightarrow> store \<Rightarrow> store" where
  "session_delete t db = db\<lparr>rows := filter (\<lambda>r. t_id r \<noteq> t_id t) (rows db)\<rparr>"

text \<open>The query of \<^verbatim>\<open>delete_task\<close> and \<^verbatim>\<open>update_task_by_title\<close>:
  \<^verbatim>\<open>select(Task).where(Task.user_id == user_id, Task.title == title)\<close>, then
  \<^verbatim>\<open>.first()\<close>.\<close>

definition task_by_title :: "store \<Rightarrow> string option \<Rightarrow> string option \<Rightarrow> task option" where
  "task_by_title db user_id title =
     first (filter (\<lambda>t. Some (t_user_id t) = user_id \<and> Some (t_title t) = title) (rows db))"

text \<open>The row stored under a primary key, for stating what a call left in the table.\<close>

definition get_task :: "store \<Rightarrow> nat \<Rightarrow> task option" where
  "get_task db i = first (filter (\<lambda>r. t_id r = i) (rows db))"

text \<open>\<^verbatim>\<open>d.get(k)\<close> and \<^verbatim>\<open>list(d.keys())\<close> on a returned dictionary.\<close>

definition field :: "string \<Rightarrow> json \<Rightarrow> json option" where
  "field k j = (case j of JObj kv \<Rightarrow> map_of kv k | _ \<Rightarrow> None)"

definition keys :: "json \<Rightarrow> string list" where
  "keys j = (case j of JObj kv \<Rightarrow> map fst kv | _ \<Rightarrow> [])"

definition quote :: string where
  "quote = [CHR 0x27]"

definition ok_message :: "string \<Rightarrow> (string \<times> json) list" where
  "ok_message msg = [(''status'', JStr ''success''), (''message'', JStr msg)]"

definition error_message :: "string \<Rightarrow> json" where
  "error_message msg = JObj [(''status'', JStr ''error''), (''message'', JStr msg)]"

section \<open>Core task functions\<close>

text \<open>
  Every function takes the table and returns \<open>Inl\<close> of the exception it raises, or \<open>Inr\<close> of
  the dictionary it returns with the table after the call. \<open>now\<close> is what the clock gives
  during the call. A parameter annotated \<^verbatim>\<open>str\<close> that the function tests with \<^verbatim>\<open>not\<close> is
  \<open>None\<close> or a string, since the test is there for both; \<^verbatim>\<open>title\<close> of \<^verbatim>\<open>add_task\<close> is not
  tested and goes into the row as it is, so it is a string, as the column is.
\<close>

definition add_task ::
  "datetime \<Rightarrow> store \<Rightarrow> string option \<Rightarrow> string \<Rightarrow> string option \<Rightarrow> string
     \<Rightarrow> string option \<Rightarrow> string option \<Rightarrow> error + json \<times> store" where
  "add_task now db user_id title description priority due_date tags =
     (if \<not> truthy user_id then Inl (ValueError ''user_id is required'')
      else
        let parsed_date = (if truthy due_date then strptime_ymd (the due_date) else None);
            (task, db') = session_insert now
              \<lparr>t_id = 0, t_user_id = the user_id, t_title = title, t_description = description,
               t_priority = priority, t_status = ''pending'', t_due_date = parsed_date,
               t_tags = tags, t_created_at = None, t_updated_at = None\<rparr> db
        in Inr (JObj (ok_message (''Task '' @ quote @ title @ quote @ '' added.'')
                      @ [(''task'', JObj [(''id'', JStr (str_nat (t_id task))),
                                          (''title'', JStr (t_title task)),
                                          (''status'', JStr (t_status task))])]),
                db'))"



text \<open>One entry of the list that \<^verbatim>\<open>list_tasks\<close> returns.\<close>

definition serialize :: "task \<Rightarrow> json" where
  "serialize t =
     JObj [(''id'', JStr (str_nat (t_id t))),
           (''title'', JStr (t_title t)),
           (''description'', json_opt (t_description t)),
           (''priority'', JStr (t_priority t)),
           (''status'', JStr (t_status t)),
           (''due_date'', (case t_due_date t of Some d \<Rightarrow> JStr (isoformat d) | None \<Rightarrow> JNull)),
           (''created_at'',
              (case t_created_at t of Some d \<Rightarrow> JStr (isoformat d) | None \<Rightarrow> JNull))]"

definition list_tasks :: "store \<Rightarrow> string option \<Rightarrow> string option \<Rightarrow> error + json \<times> store" where
  "list_tasks db user_id status =
     (if \<not> truthy user_id then Inl (ValueError ''user_id is required'')
      else
        let query = (\<lambda>t. Some (t_user_id t) = user_id);
            query = (if truthy status \<and> status \<noteq> Some ''all''
                     then (\<lambda>t. query t \<and> Some (t_status t) = status) else query);
            tasks = filter query (rows db)
        in Inr (JObj [(''status'', JStr ''success''), (''tasks'', JList (map serialize tasks))],
                db))"

definition delete_task :: "store \<Rightarrow> string option \<Rightarrow> string option \<Rightarrow> error + json \<times> store" where
  "delete_task db user_id task_title =
     (if \<not> truthy user_id \<or> \<not> truthy task_title then Inl (ValueError ''Missing required fields'')
      else
        case task_by_title db user_id task_title of
          None \<Rightarrow> Inr (error_message ''Task not found.'', db)
        | Some task \<Rightarrow>
            Inr (JObj (ok_message (''Task '' @ quote @ fstr task_title @ quote @ '' deleted.'')),
                 session_delete task db))"

definition update_task_by_title ::
  "datetime \<Rightarrow> store \<Rightarrow> string option \<Rightarrow> string option \<Rightarrow> string option \<Rightarrow> string option
     \<Rightarrow> string option \<Rightarrow> string option \<Rightarrow> string option \<Rightarrow> string option
     \<Rightarrow> error + json \<times> store" where
  "update_task_by_title now db user_id current_title new_title description priority status
       due_date tags =
     (if \<not> truthy user_id \<or> \<not> truthy current_title then Inr (error_message ''Missing fields'', db)
      else
        case task_by_title db user_id current_title of
          None \<Rightarrow> Inr (error_message ''Task not found.'', db)
        | Some task \<Rightarrow>
            let task = (if truthy new_title then task\<lparr>t_title := the new_title\<rparr> else task);
                task = (if truthy description then task\<lparr>t_description := description\<rparr> else task);
                task = (if truthy priority then task\<lparr>t_priority := the priority\<rparr> else task);
                task = (if truthy status then task\<lparr>t_status := the status\<rparr> else task);
                task = (if truthy tags then task\<lparr>t_tags := tags\<rparr> else task);
                task = (if truthy due_date
                        then (case strptime_ymd (the due_date) of
                                Some d \<Rightarrow> task\<lparr>t_due_date := Some d\<rparr>
                              | None \<Rightarrow> task)
                        else task);
                task = task\<lparr>t_updated_at := Some now\<rparr>
            in Inr (JObj (ok_message (''Task '' @ quote @ fstr current_title @ quote @ '' updated.'')
                          @ [(''task'', JObj [(''title'', JStr (t_title task))])]),
                    session_add task db))"

section \<open>Analytics\<close>

text \<open>The argument of \<^verbatim>\<open>int\<close> in \<^verbatim>\<open>get_analytics\<close> is a float or the integer \<open>0\<close>.\<close>

datatype number = PInt int | PFloat pyfloat

definition py_int :: "number \<Rightarrow> int" where
  "py_int x = (case x of PInt n \<Rightarrow> n | PFloat f \<Rightarrow> int_of_float f)"

definition get_analytics :: "store \<Rightarrow> string option \<Rightarrow> error + json \<times> store" where
  "get_analytics db user_id =
     (if \<not> truthy user_id then Inl (ValueError ''user_id is required'')
      else
        let tasks = filter (\<lambda>t. Some (t_user_id t) = user_id) (rows db);
            total = int (length tasks);
            completed = int (length (filter (\<lambda>t. t_status t = ''completed'') tasks));
            pending = int (length (filter (\<lambda>t. t_status t = ''pending'') tasks));
            score = py_int (if total > 0
                            then PFloat (float_mul (truediv completed total) (float_of_int 100))
                            else PInt 0)
        in Inr (JObj [(''status'', JStr ''success''),
                      (''analytics'', JObj [(''tasks_total'', JInt total),
                                            (''tasks_completed'', JInt completed),
                                            (''tasks_pending'', JInt pending),
                                            (''productivity_score'', JInt score)])],
                db))"

text \<open>
  The score as the specification words it, for comparison with the one \<^verbatim>\<open>get_analytics\<close>
  computes: the floor of \<open>completed / total * 100\<close> over the rational numbers, which is the
  integer quotient of \<open>completed * 100\<close> by \<open>total\<close>, and \<open>0\<close> when there is no task.
\<close>

definition spec_productivity_score :: "int \<Rightarrow> int \<Rightarrow> int" where
  "spec_productivity_score tasks_completed tasks_total =
     (if tasks_total > 0 then (tasks_completed * 100) div tasks_total else 0)"

section \<open>Bulk actions\<close>

definition delete_all_tasks :: "store \<Rightarrow> string option \<Rightarrow> error + json \<times> store" where
  "delete_all_tasks db user_id =
     (if \<not> truthy user_id then Inl (ValueError ''user_id is required'')
      else
        let tasks = filter (\<lambda>t. Some (t_user_id t) = user_id) (rows db);
            count = length tasks;
            db' = fold session_delete tasks db
        in Inr (JObj (ok_message (''Deleted '' @ str_nat count @ '' tasks.'')), db'))"

definition set_all_status :: "string \<Rightarrow> task list \<Rightarrow> store \<Rightarrow> store \<times> nat" where
  "set_all_status s tasks db =
     fold (\<lambda>t (d, count). (session_add (t\<lparr>t_status := s\<rparr>) d, count + 1)) tasks (db, 0)"

definition complete_all_tasks :: "store \<Rightarrow> string option \<Rightarrow> error + json \<times> store" where
  "complete_all_tasks db user_id =
     (if \<not> truthy user_id then Inl (ValueError ''user_id is required'')
      else
        let tasks = filter (\<lambda>t. Some (t_user_id t) = user_id) (rows db);
            (db', count) = set_all_status ''completed'' tasks db
        in Inr (JObj (ok_message (''Marked '' @ str_nat count @ '' tasks completed.'')), db'))"

definition mark_all_tasks_incomplete :: "store \<Rightarrow> string option \<Rightarrow> error + json \<times> store" where
  "mark_all_tasks_incomplete db user_id =
     (if \<not> truthy user_id then Inl (ValueError ''user_id is required'')
      else
        let tasks = filter (\<lambda>t. Some (t_user_id t) = user_id) (rows db);
            (db', count) = set_all_status ''pending'' tasks db
        in Inr (JObj (ok_message (''Marked '' @ str_nat count @ '' tasks pending.'')), db'))"

section \<open>Sample tables\<close>

definition example_now :: datetime where
  "example_now =
     \<lparr>year = 2024, month = 6, day = 1, hour = 12, minute = 30, second = 45,
      microsecond = 123456\<rparr>"

definition example_created :: datetime where
  "example_created =
     \<lparr>year = 2024, month = 1, day = 2, hour = 3, minute = 4, second = 5, microsecond = 0\<rparr>"

definition example_report :: task where
  "example_report =
     \<lparr>t_id = 1, t_user_id = ''alice'', t_title = ''report'', t_description = Some ''draft'',
      t_priority = ''high'', t_status = ''pending'', t_due_date = None, t_tags = Some ''work'',
      t_created_at = Some example_created, t_updated_at = None\<rparr>"

definition example_other :: task where
  "example_other =
     \<lparr>t_id = 2, t_user_id = ''bob'', t_title = ''report'', t_description = None,
      t_priority = ''medium'', t_status = ''completed'',
      t_due_date = Some \<lparr>year = 2024, month = 3, day = 15, hour = 0, minute = 0, second = 0,
                         microsecond = 0\<rparr>,
      t_tags = None, t_created_at = Some example_created, t_updated_at = None\<rparr>"

definition example_shop :: task where
  "example_shop =
     \<lparr>t_id = 3, t_user_id = ''alice'', t_title = ''shop'', t_description = None,
      t_priority = ''low'', t_status = ''completed'', t_due_date = None, t_tags = None,
      t_created_at = Some example_created, t_updated_at = None\<rparr>"

definition example_store :: store where
  "example_store = \<lparr>rows = [example_report, example_other, example_shop], next_id = 4\<rparr>"

text \<open>A user with fifty tasks, of which the first twenty-nine are completed.\<close>

definition numbered_task :: "string \<Rightarrow> nat \<Rightarrow> task" where
  "numbered_task s i =
     \<lparr>t_id = i, t_user_id = ''alice'', t_title = ''task'', t_description = None,
      t_priority = ''medium'', t_status = s, t_due_date = None, t_tags = None,
      t_created_at = Some example_created, t_updated_at = None\<rparr>"

definition fifty_store :: store where
  "fifty_store =
     \<lparr>rows = map (numbered_task ''completed'') [0..<29] @ map (numbered_task ''pending'') [29..<50],
      next_id = 50\<rparr>"

section \<open>Lookups\<close>

lemma first_filter_None: "first (filter P xs) = None \<longleftrightarrow> (\<forall>x\<in>set xs. \<not> P x)"
  by (induction xs) (auto simp: first_def)

lemma first_filter_Some: "first (filter P xs) = Some x \<Longrightarrow> x \<in> set xs \<and> P x"
  by (induction xs) (auto simp: first_def split: if_splits)

lemma first_map: "first (map f xs) = map_option f (first xs)"
  by (cases xs) (simp_all add: first_def)

lemma task_by_title_None:
  "task_by_title db user_id title = None \<longleftrightarrow>
     (\<forall>t\<in>set (rows db). \<not> (Some (t_user_id t) = user_id \<and> Some (t_title t) = title))"
  by (simp add: task_by_title_def first_filter_None)

lemma task_by_title_Some:
  "task_by_title db user_id title = Some t \<Longrightarrow>
     t \<in> set (rows db) \<and> Some (t_user_id t) = user_id \<and> Some (t_title t) = title"
  unfolding task_by_title_def by (drule first_filter_Some) simp

lemma example_rows_simps:
  "rows example_store = [example_report, example_other, example_shop]"
  "t_id example_report = 1" "t_user_id example_report = ''alice''"
  "t_title example_report = ''report''"
  "t_id example_other = 2" "t_user_id example_other = ''bob''"
  "t_title example_other = ''report''"
  "t_id example_shop = 3" "t_user_id example_shop = ''alice''"
  "t_title example_shop = ''shop''"
  by (simp_all add: example_store_def example_report_def example_other_def example_shop_def)

section \<open>Missing arguments and missing tasks\<close>

text \<open>
  C1. When \<open>user_id\<close> or the title is missing or empty, \<open>delete_task\<close> raises \<open>ValueError\<close>,
  while \<open>update_task_by_title\<close> returns the dictionary \<open>{status: error, message}\<close>. When no
  row has the given \<open>user_id\<close> and title, both return such a dictionary and neither raises;
  the table is left as it was.
\<close>

theorem missing_and_not_found_signals:
  "(\<not> truthy user_id \<or> \<not> truthy task_title \<longrightarrow>
      delete_task db user_id task_title = Inl (ValueError ''Missing required fields''))
   \<and> (truthy user_id \<and> truthy task_title
        \<and> (\<forall>t\<in>set (rows db). \<not> (Some (t_user_id t) = user_id \<and> Some (t_title t) = task_title))
      \<longrightarrow> delete_task db user_id task_title =
        Inr (JObj [(''status'', JStr ''error''), (''message'', JStr ''Task not found.'')], db))
   \<and> (\<not> truthy user_id \<or> \<not> truthy task_title \<longrightarrow>
      update_task_by_title now db user_id task_title new_title description priority status
          due_date tags =
        Inr (JObj [(''status'', JStr ''error''), (''message'', JStr ''Missing fields'')], db))
   \<and> (truthy user_id \<and> truthy task_title
        \<and> (\<forall>t\<in>set (rows db). \<not> (Some (t_user_id t) = user_id \<and> Some (t_title t) = task_title))
      \<longrightarrow> update_task_by_title now db user_id task_title new_title description priority status
          due_date tags =
        Inr (JObj [(''status'', JStr ''error''), (''message'', JStr ''Task not found.'')], db))"
proof -
  have nf: "task_by_title db user_id task_title = None"
    if "\<forall>t\<in>set (rows db). \<not> (Some (t_user_id t) = user_id \<and> Some (t_title t) = task_title)"
    using that by (simp add: task_by_title_None)
  show ?thesis
    by (auto simp: delete_task_def update_task_by_title_def error_message_def nf)
qed

theorem missing_and_not_found_signals_witness:
  "delete_task example_store (Some '''') (Some ''report'') =
       Inl (ValueError ''Missing required fields'')
   \<and> delete_task example_store (Some ''alice'') None =
       Inl (ValueError ''Missing required fields'')
   \<and> truthy (Some ''alice'') \<and> truthy (Some ''taxes'')
   \<and> filter (\<lambda>t. Some (t_user_id t) = Some ''alice'' \<and> Some (t_title t) = Some ''taxes'')
         (rows example_store) = []
   \<and> delete_task example_store (Some ''alice'') (Some ''taxes'') =
       Inr (JObj [(''status'', JStr ''error''), (''message'', JStr ''Task not found.'')],
            example_store)
   \<and> update_task_by_title example_now example_store None (Some ''report'')
         None None None (Some ''completed'') None None =
       Inr (JObj [(''status'', JStr ''error''), (''message'', JStr ''Missing fields'')],
            example_store)
   \<and> update_task_by_title example_now example_store (Some ''alice'') (Some ''taxes'')
         None None None (Some ''completed'') None None =
       Inr (JObj [(''status'', JStr ''error''), (''message'', JStr ''Task not found.'')],
            example_store)"
proof -
  have nf: "\<forall>t\<in>set (rows example_store).
      \<not> (Some (t_user_id t) = Some ''alice'' \<and> Some (t_title t) = Some ''taxes'')"
    by (simp add: example_rows_simps)
  have t: "truthy (Some ''alice'')" "truthy (Some ''taxes'')" "\<not> truthy (Some '''')"
    "\<not> truthy None"
    by (simp_all add: truthy_def)
  show ?thesis
    using nf t
      missing_and_not_found_signals [of "Some ''''" "Some ''report''" example_store]
      missing_and_not_found_signals [of "Some ''alice''" None example_store]
      missing_and_not_found_signals [of "Some ''alice''" "Some ''taxes''" example_store
        example_now None None None "Some ''completed''" None None]
      missing_and_not_found_signals [of None "Some ''report''" example_store example_now
        None None None "Some ''completed''" None None]
    by simp
qed

section \<open>What \<open>update_task_by_title\<close> writes\<close>

lemma first_filter_map_replace:
  "x \<in> set xs \<Longrightarrow> k x = i \<Longrightarrow> k y = i \<Longrightarrow>
     first (filter (\<lambda>r. k r = i) (map (\<lambda>r. if k r = i then y else r) xs)) = Some y"
  by (induction xs) (auto simp: first_def)

lemma get_task_session_add:
  "t \<in> set (rows db) \<Longrightarrow> t_id t' = t_id t \<Longrightarrow> get_task (session_add t' db) (t_id t) = Some t'"
  using first_filter_map_replace [of t "rows db" t_id "t_id t" t']
  by (simp add: get_task_def session_add_def)

lemma rows_session_add:
  "rows (session_add t db) = map (\<lambda>r. if t_id r = t_id t then t else r) (rows db)"
  by (simp add: session_add_def)

text \<open>The result of an update that finds its task, with the row it writes.\<close>

lemma update_task_by_title_found:
  assumes "truthy user_id" and "truthy current_title"
    and "task_by_title db user_id current_title = Some task"
  shows "update_task_by_title now db user_id current_title new_title description priority
           status due_date tags =
         Inr (JObj [(''status'', JStr ''success''),
                    (''message'', JStr (''Task '' @ quote @ fstr current_title @ quote
                                        @ '' updated.'')),
                    (''task'', JObj [(''title'',
                       JStr (if truthy new_title then the new_title else t_title task))])],
              session_add
                (task\<lparr>t_title := (if truthy new_title then the new_title else t_title task),
                      t_description :=
                        (if truthy description then description else t_description task),
                      t_priority := (if truthy priority then the priority else t_priority task),
                      t_status := (if truthy status then the status else t_status task),
                      t_tags := (if truthy tags then tags else t_tags task),
                      t_due_date :=
                        (if truthy due_date
                         then (case strptime_ymd (the due_date) of
                                 Some d \<Rightarrow> Some d | None \<Rightarrow> t_due_date task)
                         else t_due_date task),
                      t_updated_at := Some now\<rparr>) db)"
  using assms
  by (simp add: update_task_by_title_def ok_message_def Let_def split: option.split)

lemma add_task_ok:
  assumes "truthy user_id"
  shows "add_task now db user_id title description priority due_date tags =
         Inr (JObj [(''status'', JStr ''success''),
                    (''message'', JStr (''Task '' @ quote @ title @ quote @ '' added.'')),
                    (''task'', JObj [(''id'', JStr (str_nat (next_id db))),
                                     (''title'', JStr title),
                                     (''status'', JStr ''pending'')])],
              db\<lparr>rows := rows db @
                     [\<lparr>t_id = next_id db, t_user_id = the user_id, t_title = title,
                       t_description = description, t_priority = priority,
                       t_status = ''pending'',
                       t_due_date = (if truthy due_date then strptime_ymd (the due_date)
                                     else None),
                       t_tags = tags, t_created_at = Some now, t_updated_at = None\<rparr>],
                 next_id := Suc (next_id db)\<rparr>)"
  using assms by (simp add: add_task_def session_insert_def ok_message_def Let_def)

lemma example_lookup:
  "task_by_title example_store (Some ''alice'') (Some ''report'') = Some example_report"
  by (simp add: task_by_title_def first_def example_rows_simps)

lemma truthy_simps:
  "truthy None = False" "truthy (Some s) = (s \<noteq> [])"
  by (simp_all add: truthy_def)

section \<open>Fields that an update leaves alone\<close>

text \<open>
  C3. When \<open>update_task_by_title\<close> finds the task, each of \<open>new_title\<close>, \<open>description\<close>,
  \<open>priority\<close>, \<open>status\<close>, \<open>tags\<close> and \<open>due_date\<close> that is omitted or the empty string leaves
  its column of the stored row as it was, and each of the first five given as a non-empty
  string is written; a non-empty \<open>due_date\<close> is written when it parses. No other row changes.
\<close>

theorem update_keeps_fields_not_supplied:
  assumes "truthy user_id" and "truthy current_title"
    and "task_by_title db user_id current_title = Some task"
  shows "\<exists>res db' task'.
           update_task_by_title now db user_id current_title new_title description priority
             status due_date tags = Inr (res, db')
         \<and> rows db' = map (\<lambda>r. if t_id r = t_id task then task' else r) (rows db)
         \<and> get_task db' (t_id task) = Some task'
         \<and> t_title task' = (if truthy new_title then the new_title else t_title task)
         \<and> t_description task' = (if truthy description then description else t_description task)
         \<and> t_priority task' = (if truthy priority then the priority else t_priority task)
         \<and> t_status task' = (if truthy status then the status else t_status task)
         \<and> t_tags task' = (if truthy tags then tags else t_tags task)
         \<and> (\<not> truthy due_date \<longrightarrow> t_due_date task' = t_due_date task)
         \<and> (truthy due_date \<longrightarrow>
              t_due_date task' =
                (case strptime_ymd (the due_date) of
                   Some d \<Rightarrow> Some d | None \<Rightarrow> t_due_date task))
         \<and> t_id task' = t_id task \<and> t_user_id task' = t_user_id task
         \<and> t_created_at task' = t_created_at task"
proof -
  from assms(3) have mem: "task \<in> set (rows db)"
    by (simp add: task_by_title_Some)
  show ?thesis
    by (simp add: update_task_by_title_found [OF assms] rows_session_add
        get_task_session_add [OF mem])
qed

theorem update_keeps_fields_not_supplied_witness:
  "truthy (Some ''alice'') \<and> truthy (Some ''report'')
   \<and> task_by_title example_store (Some ''alice'') (Some ''report'') = Some example_report
   \<and> (\<exists>res db' task'.
         update_task_by_title example_now example_store (Some ''alice'') (Some ''report'')
           None (Some '''') None (Some ''completed'') (Some '''') None = Inr (res, db')
       \<and> get_task db' 1 = Some task'
       \<and> t_title task' = ''report'' \<and> t_description task' = Some ''draft''
       \<and> t_priority task' = ''high'' \<and> t_status task' = ''completed''
       \<and> t_tags task' = Some ''work'' \<and> t_due_date task' = None)"
proof -
  have h: "truthy (Some ''alice'')" "truthy (Some ''report'')"
    by (simp_all add: truthy_def)
  show ?thesis
    using h example_lookup
      update_keeps_fields_not_supplied [OF h example_lookup, of example_now None "Some ''''"
        None "Some ''completed''" "Some ''''" None]
    by (simp add: truthy_simps example_report_def) blast
qed

section \<open>Dates that do not parse\<close>

text \<open>
  C4. A \<open>due_date\<close> string that \<open>strptime\<close> rejects is never an error. \<open>add_task\<close> with a
  non-empty \<open>user_id\<close> still returns success and inserts the task, with no due date.
  \<open>update_task_by_title\<close> on a task it finds still returns success, keeps the due date the
  row had, and applies the rest of the patch.
\<close>

theorem malformed_due_date_is_ignored:
  assumes "truthy user_id" and "strptime_ymd s = None"
  shows "(\<exists>res db' t.
            add_task now db user_id title description priority (Some s) tags = Inr (res, db')
          \<and> field ''status'' res = Some (JStr ''success'')
          \<and> rows db' = rows db @ [t]
          \<and> t_due_date t = None
          \<and> Some (t_user_id t) = user_id \<and> t_title t = title
          \<and> t_description t = description \<and> t_priority t = priority
          \<and> t_status t = ''pending'' \<and> t_tags t = tags)
       \<and> (truthy current_title \<and> task_by_title db user_id current_title = Some task \<longrightarrow>
           (\<exists>res db' task'.
              update_task_by_title now db user_id current_title new_title description new_priority
                status (Some s) tags = Inr (res, db')
            \<and> field ''status'' res = Some (JStr ''success'')
            \<and> get_task db' (t_id task) = Some task'
            \<and> t_due_date task' = t_due_date task
            \<and> t_title task' = (if truthy new_title then the new_title else t_title task)
            \<and> t_description task' =
                (if truthy description then description else t_description task)
            \<and> t_priority task' = (if truthy new_priority then the new_priority else t_priority task)
            \<and> t_status task' = (if truthy status then the status else t_status task)
            \<and> t_tags task' = (if truthy tags then tags else t_tags task)
            \<and> t_updated_at task' = Some now))"
proof (intro conjI impI)
  from assms(1) have u: "Some (the user_id) = user_id"
    by (cases user_id) (simp_all add: truthy_def)
  show "\<exists>res db' t.
            add_task now db user_id title description priority (Some s) tags = Inr (res, db')
          \<and> field ''status'' res = Some (JStr ''success'')
          \<and> rows db' = rows db @ [t]
          \<and> t_due_date t = None
          \<and> Some (t_user_id t) = user_id \<and> t_title t = title
          \<and> t_description t = description \<and> t_priority t = priority
          \<and> t_status t = ''pending'' \<and> t_tags t = tags"
    using u assms(2) by (simp add: add_task_ok [OF assms(1)] field_def truthy_simps)
next
  assume a: "truthy current_title \<and> task_by_title db user_id current_title = Some task"
  from a have f: "truthy current_title" "task_by_title db user_id current_title = Some task"
    by simp_all
  from f(2) have mem: "task \<in> set (rows db)"
    by (simp add: task_by_title_Some)
  show "\<exists>res db' task'.
              update_task_by_title now db user_id current_title new_title description new_priority
                status (Some s) tags = Inr (res, db')
            \<and> field ''status'' res = Some (JStr ''success'')
            \<and> get_task db' (t_id task) = Some task'
            \<and> t_due_date task' = t_due_date task
            \<and> t_title task' = (if truthy new_title then the new_title else t_title task)
            \<and> t_description task' =
                (if truthy description then description else t_description task)
            \<and> t_priority task' = (if truthy new_priority then the new_priority else t_priority task)
            \<and> t_status task' = (if truthy status then the status else t_status task)
            \<and> t_tags task' = (if truthy tags then tags else t_tags task)
            \<and> t_updated_at task' = Some now"
    using assms(2)
    by (simp add: update_task_by_title_found [OF assms(1) f] field_def
        get_task_session_add [OF mem])
qed

lemma strptime_not_a_date: "strptime_ymd ''not-a-date'' = None"
  by (simp add: strptime_ymd_def re_ymd_def re_seq_def re_Y_def is_digit_def digits_def
      first_def)

theorem malformed_due_date_is_ignored_witness:
  "truthy (Some ''alice'') \<and> strptime_ymd ''not-a-date'' = None
   \<and> (\<exists>res db' t.
         add_task example_now example_store (Some ''alice'') ''taxes'' None ''medium''
           (Some ''not-a-date'') None = Inr (res, db')
       \<and> field ''status'' res = Some (JStr ''success'')
       \<and> rows db' = rows example_store @ [t] \<and> t_due_date t = None \<and> t_title t = ''taxes'')
   \<and> truthy (Some ''report'')
   \<and> task_by_title example_store (Some ''alice'') (Some ''report'') = Some example_report
   \<and> (\<exists>res db' task'.
         update_task_by_title example_now example_store (Some ''alice'') (Some ''report'')
           None None (Some ''low'') None (Some ''not-a-date'') None = Inr (res, db')
       \<and> field ''status'' res = Some (JStr ''success'')
       \<and> get_task db' 1 = Some task'
       \<and> t_due_date task' = None \<and> t_priority task' = ''low''
       \<and> t_updated_at task' = Some example_now)"
proof -
  have h: "truthy (Some ''alice'')" "truthy (Some ''report'')"
    by (simp_all add: truthy_def)
  show ?thesis
    using h example_lookup strptime_not_a_date
      malformed_due_date_is_ignored [OF h(1) strptime_not_a_date, where now = example_now
        and db = example_store and title = "''taxes''" and description = None
        and priority = "''medium''" and tags = None and current_title = "Some ''report''"
        and task = example_report and new_title = None and new_priority = "Some ''low''"
        and status = None]
    by (simp add: truthy_simps example_report_def) blast
qed

section \<open>The modification time\<close>

text \<open>
  C9. Every call of \<open>update_task_by_title\<close> that finds its task returns success and writes
  the row back with \<open>updated_at\<close> set to the current time. This holds for a call that
  supplies none of the optional fields too: that call changes \<open>updated_at\<close> and nothing
  else, and reports the title the task already had.
\<close>

theorem update_always_sets_updated_at:
  assumes "truthy user_id" and "truthy current_title"
    and "task_by_title db user_id current_title = Some task"
  shows "(\<exists>res db' task'.
            update_task_by_title now db user_id current_title new_title description priority
              status due_date tags = Inr (res, db')
          \<and> field ''status'' res = Some (JStr ''success'')
          \<and> rows db' = map (\<lambda>r. if t_id r = t_id task then task' else r) (rows db)
          \<and> get_task db' (t_id task) = Some task'
          \<and> t_updated_at task' = Some now)
       \<and> (\<not> truthy new_title \<and> \<not> truthy description \<and> \<not> truthy priority \<and> \<not> truthy status
            \<and> \<not> truthy due_date \<and> \<not> truthy tags \<longrightarrow>
          update_task_by_title now db user_id current_title new_title description priority
              status due_date tags =
            Inr (JObj [(''status'', JStr ''success''),
                       (''message'', JStr (''Task '' @ quote @ fstr current_title @ quote
                                           @ '' updated.'')),
                       (''task'', JObj [(''title'', JStr (t_title task))])],
                 db\<lparr>rows := map (\<lambda>r. if t_id r = t_id task
                                       then task\<lparr>t_updated_at := Some now\<rparr> else r)
                                (rows db)\<rparr>))"
proof (intro conjI impI)
  from assms(3) have mem: "task \<in> set (rows db)"
    by (simp add: task_by_title_Some)
  show "\<exists>res db' task'.
            update_task_by_title now db user_id current_title new_title description priority
              status due_date tags = Inr (res, db')
          \<and> field ''status'' res = Some (JStr ''success'')
          \<and> rows db' = map (\<lambda>r. if t_id r = t_id task then task' else r) (rows db)
          \<and> get_task db' (t_id task) = Some task'
          \<and> t_updated_at task' = Some now"
    by (simp add: update_task_by_title_found [OF assms] rows_session_add field_def
        get_task_session_add [OF mem])
next
  assume "\<not> truthy new_title \<and> \<not> truthy description \<and> \<not> truthy priority \<and> \<not> truthy status
            \<and> \<not> truthy due_date \<and> \<not> truthy tags"
  then show "update_task_by_title now db user_id current_title new_title description priority
              status due_date tags =
            Inr (JObj [(''status'', JStr ''success''),
                       (''message'', JStr (''Task '' @ quote @ fstr current_title @ quote
                                           @ '' updated.'')),
                       (''task'', JObj [(''title'', JStr (t_title task))])],
                 db\<lparr>rows := map (\<lambda>r. if t_id r = t_id task
                                       then task\<lparr>t_updated_at := Some now\<rparr> else r)
                                (rows db)\<rparr>)"
    by (simp add: update_task_by_title_found [OF assms] session_add_def)
qed

theorem update_always_sets_updated_at_witness:
  "truthy (Some ''alice'') \<and> truthy (Some ''report'')
   \<and> task_by_title example_store (Some ''alice'') (Some ''report'') = Some example_report
   \<and> \<not> truthy None \<and> \<not> truthy (Some '''')
   \<and> update_task_by_title example_now example_store (Some ''alice'') (Some ''report'')
        None (Some '''') None None None None =
      Inr (JObj [(''status'', JStr ''success''),
                 (''message'', JStr (''Task '' @ quote @ ''report'' @ quote @ '' updated.'')),
                 (''task'', JObj [(''title'', JStr ''report'')])],
           \<lparr>rows = [example_report\<lparr>t_updated_at := Some example_now\<rparr>, example_other,
                    example_shop],
            next_id = 4\<rparr>)"
proof -
  have h: "truthy (Some ''alice'')" "truthy (Some ''report'')"
    by (simp_all add: truthy_def)
  show ?thesis
    using h example_lookup
      update_always_sets_updated_at [OF h example_lookup, of example_now None "Some ''''"
        None None None None]
    by (simp add: truthy_simps fstr_def example_rows_simps example_store_def)
qed

section \<open>Deleting all tasks of a user\<close>

lemma rows_fold_session_delete:
  "rows (fold session_delete ts db) = filter (\<lambda>r. t_id r \<notin> t_id ` set ts) (rows db)"
proof (induction ts arbitrary: db)
  case Nil
  then show ?case by simp
next
  case (Cons t ts)
  have "rows (fold session_delete (t # ts) db) =
        filter (\<lambda>r. t_id r \<notin> t_id ` set ts) (filter (\<lambda>r. t_id r \<noteq> t_id t) (rows db))"
    by (simp add: Cons.IH session_delete_def)
  also have "\<dots> = filter (\<lambda>r. t_id r \<notin> t_id ` set (t # ts)) (rows db)"
    by (auto intro: filter_cong)
  finally show ?case .
qed

lemma next_id_fold_session_delete: "next_id (fold session_delete ts db) = next_id db"
  by (induction ts arbitrary: db) (simp_all add: session_delete_def)

lemma distinct_ids_owner:
  assumes "distinct (map t_id xs)" and "r \<in> set xs" and "t \<in> set xs" and "t_id r = t_id t"
  shows "r = t"
  using assms by (meson distinct_map inj_onD)

lemma filter_out_selected:
  assumes "distinct (map t_id xs)"
  shows "filter (\<lambda>r. t_id r \<notin> t_id ` set (filter P xs)) xs = filter (\<lambda>r. \<not> P r) xs"
proof (rule filter_cong [OF refl])
  fix r assume r: "r \<in> set xs"
  show "(t_id r \<notin> t_id ` set (filter P xs)) = (\<not> P r)"
  proof
    assume "t_id r \<notin> t_id ` set (filter P xs)"
    with r show "\<not> P r" by auto
  next
    assume n: "\<not> P r"
    show "t_id r \<notin> t_id ` set (filter P xs)"
    proof
      assume "t_id r \<in> t_id ` set (filter P xs)"
      then obtain t where t: "t \<in> set xs" "P t" "t_id r = t_id t" by auto
      with distinct_ids_owner [OF assms r t(1) t(3)] n show False by simp
    qed
  qed
qed

lemma filter_filter_implied: "(\<And>x. P x \<Longrightarrow> Q x) \<Longrightarrow> filter P (filter Q xs) = filter P xs"
  by (induction xs) auto

lemma filter_filter_excluded: "(\<And>x. P x \<Longrightarrow> \<not> Q x) \<Longrightarrow> filter P (filter Q xs) = []"
  by (induction xs) auto

text \<open>
  C5. In a table whose primary keys are unique, \<open>delete_all_tasks\<close> with a non-empty
  \<open>user_id\<close> removes exactly the rows of that user: what remains is the old table without
  them, in the old order, so the user owns nothing afterwards and the rows of every other
  user are what they were. The message counts the rows removed.
\<close>

theorem delete_all_tasks_removes_exactly_own:
  assumes "wf_store db" and "truthy user_id"
  shows "\<exists>res db'.
           delete_all_tasks db user_id = Inr (res, db')
         \<and> field ''status'' res = Some (JStr ''success'')
         \<and> field ''message'' res =
             Some (JStr (''Deleted ''
               @ str_nat (length (filter (\<lambda>t. Some (t_user_id t) = user_id) (rows db)))
               @ '' tasks.''))
         \<and> rows db' = filter (\<lambda>t. Some (t_user_id t) \<noteq> user_id) (rows db)
         \<and> filter (\<lambda>t. Some (t_user_id t) = user_id) (rows db') = []
         \<and> (\<forall>other. other \<noteq> user_id \<longrightarrow>
               filter (\<lambda>t. Some (t_user_id t) = other) (rows db') =
               filter (\<lambda>t. Some (t_user_id t) = other) (rows db))
         \<and> wf_store db'"
proof -
  from assms(1) have d: "distinct (map t_id (rows db))"
    and b: "list_all (\<lambda>t. t_id t < next_id db) (rows db)"
    by (simp_all add: wf_store_def)
  let ?own = "\<lambda>t. Some (t_user_id t) = user_id"
  let ?db' = "fold session_delete (filter ?own (rows db)) db"
  have r: "rows ?db' = filter (\<lambda>t. \<not> ?own t) (rows db)"
    unfolding rows_fold_session_delete by (rule filter_out_selected [OF d])
  have own: "filter ?own (rows ?db') = []"
    unfolding r by (rule filter_filter_excluded) simp
  have others: "filter (\<lambda>t. Some (t_user_id t) = other) (rows ?db') =
               filter (\<lambda>t. Some (t_user_id t) = other) (rows db)" if "other \<noteq> user_id" for other
    unfolding r using that by (intro filter_filter_implied) auto
  have wf: "wf_store ?db'"
    unfolding wf_store_def r next_id_fold_session_delete
    using d b by (simp add: distinct_map_filter list_all_iff)
  have call: "delete_all_tasks db user_id =
      Inr (JObj (ok_message (''Deleted '' @ str_nat (length (filter ?own (rows db)))
                             @ '' tasks.'')), ?db')"
    using assms(2) by (simp add: delete_all_tasks_def Let_def)
  have msg: "field ''status'' (JObj (ok_message m)) = Some (JStr ''success'')"
    "field ''message'' (JObj (ok_message m)) = Some (JStr m)" for m
    by (simp_all add: field_def ok_message_def)
  from call msg r own others wf show ?thesis
    by blast
qed

lemma wf_example_store: "wf_store example_store"
  by (simp add: wf_store_def example_rows_simps) (simp add: example_store_def)

theorem delete_all_tasks_removes_exactly_own_witness:
  "wf_store example_store \<and> truthy (Some ''alice'')
   \<and> (\<exists>res db'.
         delete_all_tasks example_store (Some ''alice'') = Inr (res, db')
       \<and> field ''message'' res = Some (JStr ''Deleted 2 tasks.'')
       \<and> rows db' = [example_other])"
proof -
  have h: "truthy (Some ''alice'')"
    by (simp add: truthy_def)
  have n: "str_nat 2 = ''2''"
    by (simp add: str_nat.simps digit_char_def digits_def)
  have f: "filter (\<lambda>t. Some (t_user_id t) = Some ''alice'') (rows example_store) =
      [example_report, example_shop]"
    "filter (\<lambda>t. Some (t_user_id t) \<noteq> Some ''alice'') (rows example_store) = [example_other]"
    by (simp_all add: example_rows_simps)
  from delete_all_tasks_removes_exactly_own [OF wf_example_store h]
  obtain res db' where c: "delete_all_tasks example_store (Some ''alice'') = Inr (res, db')"
    and m: "field ''message'' res =
             Some (JStr (''Deleted ''
               @ str_nat (length (filter (\<lambda>t. Some (t_user_id t) = Some ''alice'')
                   (rows example_store)))
               @ '' tasks.''))"
    and r: "rows db' = filter (\<lambda>t. Some (t_user_id t) \<noteq> Some ''alice'') (rows example_store)"
    by blast
  have l: "length [example_report, example_shop] = 2"
    by simp
  have m': "field ''message'' res = Some (JStr ''Deleted 2 tasks.'')"
    unfolding m f l n by simp
  have r': "rows db' = [example_other]"
    unfolding r f by simp
  from h wf_example_store c m' r' show ?thesis
    by blast
qed

section \<open>Listing\<close>

lemma list_tasks_ok:
  assumes "truthy user_id"
  shows "list_tasks db user_id status =
         Inr (JObj [(''status'', JStr ''success''),
                    (''tasks'', JList (map serialize
                       (filter (if truthy status \<and> status \<noteq> Some ''all''
                                then (\<lambda>t. Some (t_user_id t) = user_id \<and> Some (t_status t) = status)
                                else (\<lambda>t. Some (t_user_id t) = user_id))
                          (rows db))))],
              db)"
  using assms by (simp add: list_tasks_def Let_def)

text \<open>
  C6. With a non-empty \<open>user_id\<close>, \<open>list_tasks\<close> with status \<open>all\<close> returns what it returns
  with the status omitted (or empty): all tasks of the user, in table order. With any other
  non-empty status it returns exactly the tasks of the user that have this status.
\<close>

theorem list_tasks_all_is_no_filter:
  assumes "truthy user_id"
  shows "list_tasks db user_id (Some ''all'') = list_tasks db user_id None
       \<and> list_tasks db user_id (Some []) = list_tasks db user_id None
       \<and> list_tasks db user_id None =
           Inr (JObj [(''status'', JStr ''success''),
                      (''tasks'', JList (map serialize
                         (filter (\<lambda>t. Some (t_user_id t) = user_id) (rows db))))],
                db)
       \<and> (s \<noteq> [] \<and> s \<noteq> ''all'' \<longrightarrow>
           list_tasks db user_id (Some s) =
             Inr (JObj [(''status'', JStr ''success''),
                        (''tasks'', JList (map serialize
                           (filter (\<lambda>t. Some (t_user_id t) = user_id \<and> t_status t = s)
                              (rows db))))],
                  db))"
  by (simp add: list_tasks_ok [OF assms] truthy_simps)

theorem list_tasks_all_is_no_filter_witness:
  "truthy (Some ''alice'')
   \<and> list_tasks example_store (Some ''alice'') (Some ''all'') =
       list_tasks example_store (Some ''alice'') None
   \<and> list_tasks example_store (Some ''alice'') None =
       Inr (JObj [(''status'', JStr ''success''),
                  (''tasks'', JList [serialize example_report, serialize example_shop])],
            example_store)
   \<and> ''completed'' \<noteq> [] \<and> ''completed'' \<noteq> ''all''
   \<and> list_tasks example_store (Some ''alice'') (Some ''completed'') =
       Inr (JObj [(''status'', JStr ''success''), (''tasks'', JList [serialize example_shop])],
            example_store)"
proof -
  have h: "truthy (Some ''alice'')"
    by (simp add: truthy_def)
  have s: "t_status example_report = ''pending''" "t_status example_shop = ''completed''"
    "t_status example_other = ''completed''"
    by (simp_all add: example_report_def example_shop_def example_other_def)
  show ?thesis
    using h list_tasks_all_is_no_filter [OF h, of example_store "''completed''"]
    by (simp add: example_rows_simps s)
qed

text \<open>
  C10. Every entry of the list that \<open>list_tasks\<close> returns is a dictionary with exactly the
  keys \<open>id\<close>, \<open>title\<close>, \<open>description\<close>, \<open>priority\<close>, \<open>status\<close>, \<open>due_date\<close> and \<open>created_at\<close>;
  \<open>tags\<close>, \<open>updated_at\<close> and \<open>user_id\<close> are not among them.
\<close>

theorem list_tasks_entry_keys:
  assumes "truthy user_id"
  shows "\<exists>recs.
           list_tasks db user_id status =
             Inr (JObj [(''status'', JStr ''success''), (''tasks'', JList recs)], db)
         \<and> (\<forall>r\<in>set recs.
               keys r = [''id'', ''title'', ''description'', ''priority'', ''status'',
                         ''due_date'', ''created_at'']
             \<and> ''tags'' \<notin> set (keys r) \<and> ''updated_at'' \<notin> set (keys r)
             \<and> ''user_id'' \<notin> set (keys r))"
  by (auto simp: list_tasks_ok [OF assms] keys_def serialize_def)

theorem list_tasks_entry_keys_witness:
  "truthy (Some ''alice'')
   \<and> (\<exists>recs.
         list_tasks example_store (Some ''alice'') None =
           Inr (JObj [(''status'', JStr ''success''), (''tasks'', JList recs)], example_store)
       \<and> length recs = 2
       \<and> list_all (\<lambda>r. keys r = [''id'', ''title'', ''description'', ''priority'', ''status'',
                                 ''due_date'', ''created_at'']) recs)"
proof -
  have h: "truthy (Some ''alice'')"
    by (simp add: truthy_def)
  from list_tasks_entry_keys [OF h, of example_store None]
  obtain recs where c: "list_tasks example_store (Some ''alice'') None =
             Inr (JObj [(''status'', JStr ''success''), (''tasks'', JList recs)], example_store)"
    and k: "\<forall>r\<in>set recs.
               keys r = [''id'', ''title'', ''description'', ''priority'', ''status'',
                         ''due_date'', ''created_at'']"
    by blast
  from c have "recs = map serialize [example_report, example_shop]"
    by (simp add: list_tasks_ok [OF h] truthy_simps example_rows_simps)
  then have l: "length recs = 2"
    by simp
  from h c l k show ?thesis
    by (auto simp: list_all_iff)
qed

section \<open>What \<open>add_task\<close> checks\<close>




section \<open>Formatting a date and parsing it back\<close>

lemma below_ten_cases:
  assumes "(j::nat) < 10"
  shows "j = 0 \<or> j = 1 \<or> j = 2 \<or> j = 3 \<or> j = 4 \<or> j = 5 \<or> j = 6 \<or> j = 7 \<or> j = 8 \<or> j = 9"
  using assms by arith

lemma digit_char_mod: "digit_char (k mod 10) = digit_char k"
  by (simp add: digit_char_def)

lemma is_digit_digit_char: "is_digit (digit_char k)"
proof -
  have "k mod 10 < 10" by simp
  from below_ten_cases [OF this] show ?thesis
    unfolding digit_char_def is_digit_def digits_def by (elim disjE) simp_all
qed

lemma digit_char_not_blank: "digit_char k \<noteq> CHR '' ''"
proof -
  have "k mod 10 < 10" by simp
  from below_ten_cases [OF this] show ?thesis
    unfolding digit_char_def digits_def by (elim disjE) simp_all
qed

lemma digit_val_digit_char: "digit_val (digit_char k) = k mod 10"
proof -
  have "k mod 10 < 10" by simp
  from below_ten_cases [OF this] show ?thesis
    unfolding digit_char_def digit_val_def digits_def by (elim disjE) simp_all
qed

lemma str_nat_digit: "n < 10 \<Longrightarrow> str_nat n = [digit_char n]"
  by (simp add: str_nat.simps)

lemma str_nat_step: "10 \<le> n \<Longrightarrow> str_nat n = str_nat (n div 10) @ [digit_char n]"
  by (subst str_nat.simps) (simp add: digit_char_mod)

lemma str_nat_two: "10 \<le> n \<Longrightarrow> n < 100 \<Longrightarrow> str_nat n = [digit_char (n div 10), digit_char n]"
proof -
  assume a: "10 \<le> n" "n < 100"
  then have "n div 10 < 10" by simp
  then show ?thesis using a(1) by (simp only: str_nat_step str_nat_digit append.simps)
qed

lemma str_nat_three:
  "100 \<le> n \<Longrightarrow> n < 1000 \<Longrightarrow>
     str_nat n = [digit_char (n div 100), digit_char (n div 10), digit_char n]"
proof -
  assume a: "100 \<le> n" "n < 1000"
  then have b: "10 \<le> n div 10" "n div 10 < 100" "10 \<le> n" by simp_all
  have c: "n div 10 div 10 = n div 100" by (simp add: div_mult2_eq [symmetric])
  show ?thesis
    by (simp only: str_nat_step [OF b(3)] str_nat_two [OF b(1,2)] c append.simps)
qed

lemma str_nat_four:
  "1000 \<le> n \<Longrightarrow> n < 10000 \<Longrightarrow>
     str_nat n =
       [digit_char (n div 1000), digit_char (n div 100), digit_char (n div 10), digit_char n]"
proof -
  assume a: "1000 \<le> n" "n < 10000"
  then have b: "100 \<le> n div 10" "n div 10 < 1000" "10 \<le> n" by simp_all
  have c: "n div 10 div 100 = n div 1000" "n div 10 div 10 = n div 100"
    by (simp_all add: div_mult2_eq [symmetric])
  show ?thesis
    by (simp only: str_nat_step [OF b(3)] str_nat_three [OF b(1,2)] c append.simps)
qed

lemma digit_char_zero: "digit_char 0 = CHR ''0''"
  by (simp add: digit_char_def digits_def)

lemma fmt_d_2:
  assumes "n < 100"
  shows "fmt_d 2 n = [digit_char (n div 10), digit_char n]"
proof (cases "n < 10")
  case True
  then show ?thesis by (simp add: fmt_d_def str_nat_digit digit_char_zero)
next
  case False
  with assms show ?thesis by (simp add: fmt_d_def str_nat_two)
qed

lemma replicate_small:
  "replicate 2 x = [x, x]" "replicate 3 x = [x, x, x]"
  by (simp_all add: numeral_2_eq_2 numeral_3_eq_3)

lemma fmt_d_4:
  assumes "n < 10000"
  shows "fmt_d 4 n =
    [digit_char (n div 1000), digit_char (n div 100), digit_char (n div 10), digit_char n]"
proof -
  consider "n < 10" | "10 \<le> n" "n < 100" | "100 \<le> n" "n < 1000" | "1000 \<le> n"
    by linarith
  then show ?thesis
  proof cases
    case 1
    then have "n div 1000 = 0" "n div 100 = 0" "n div 10 = 0" by simp_all
    with 1 show ?thesis
      by (simp add: fmt_d_def str_nat_digit digit_char_zero replicate_small)
  next
    case 2
    then have "n div 1000 = 0" "n div 100 = 0" by simp_all
    with 2 show ?thesis
      by (simp add: fmt_d_def str_nat_two digit_char_zero replicate_small)
  next
    case 3
    then have "n div 1000 = 0" by simp
    with 3 show ?thesis
      by (simp add: fmt_d_def str_nat_three digit_char_zero)
  next
    case 4
    with assms show ?thesis
      by (simp add: fmt_d_def str_nat_four)
  qed
qed

lemma int_of_digits_4:
  "int_of_digits [digit_char a, digit_char b, digit_char c, digit_char d] =
     1000 * (a mod 10) + 100 * (b mod 10) + 10 * (c mod 10) + d mod 10"
  by (simp add: int_of_digits_def digit_char_not_blank digit_val_digit_char)

lemma int_of_digits_2:
  "int_of_digits [digit_char a, digit_char b] = 10 * (a mod 10) + b mod 10"
  by (simp add: int_of_digits_def digit_char_not_blank digit_val_digit_char)

lemma int_of_digits_fmt_d_4:
  assumes "n < 10000"
  shows "int_of_digits (fmt_d 4 n) = n"
proof -
  have a: "n = 10 * (n div 10) + n mod 10"
    by simp
  have b: "n div 10 = 10 * (n div 100) + n div 10 mod 10"
    using div_mult_mod_eq [of "n div 10" 10] by (simp add: div_mult2_eq [symmetric])
  have c: "n div 100 = 10 * (n div 1000) + n div 100 mod 10"
    using div_mult_mod_eq [of "n div 100" 10] by (simp add: div_mult2_eq [symmetric])
  from assms have d: "n div 1000 mod 10 = n div 1000"
    by simp
  have "1000 * (n div 1000 mod 10) + 100 * (n div 100 mod 10) + 10 * (n div 10 mod 10)
          + n mod 10 = n"
    unfolding d using a b c by linarith
  then show ?thesis
    by (simp only: fmt_d_4 [OF assms] int_of_digits_4)
qed

lemma int_of_digits_fmt_d_2:
  assumes "n < 100"
  shows "int_of_digits (fmt_d 2 n) = n"
proof -
  from assms have d: "n div 10 mod 10 = n div 10"
    by simp
  have "10 * (n div 10 mod 10) + n mod 10 = n"
    unfolding d by simp
  then show ?thesis
    by (simp only: fmt_d_2 [OF assms] int_of_digits_2)
qed

lemma re_Y_fmt_d: "n < 10000 \<Longrightarrow> re_Y (fmt_d 4 n @ r) = [(fmt_d 4 n, r)]"
  by (simp add: fmt_d_4 re_Y_def is_digit_digit_char)

lemma re_seq_Y:
  "n < 10000 \<Longrightarrow>
     re_seq re_Y q (fmt_d 4 n @ r) = map (\<lambda>(b, r'). ((fmt_d 4 n, b), r')) (q r)"
  by (simp add: re_seq_def re_Y_fmt_d)

lemma re_seq_dash:
  "re_seq re_dash q (CHR ''-'' # r) = map (\<lambda>(b, r'). ((''-'', b), r')) (q r)"
  by (simp add: re_seq_def re_dash_def re_one_def)

lemma month_cases:
  assumes "1 \<le> (m::nat)" and "m \<le> 12"
  shows "m = 1 \<or> m = 2 \<or> m = 3 \<or> m = 4 \<or> m = 5 \<or> m = 6 \<or> m = 7 \<or> m = 8 \<or> m = 9
       \<or> m = 10 \<or> m = 11 \<or> m = 12"
  using assms by arith

lemma day_cases:
  assumes "1 \<le> (d::nat)" and "d \<le> 31"
  shows "d = 1 \<or> d = 2 \<or> d = 3 \<or> d = 4 \<or> d = 5 \<or> d = 6 \<or> d = 7 \<or> d = 8 \<or> d = 9
       \<or> d = 10 \<or> d = 11 \<or> d = 12 \<or> d = 13 \<or> d = 14 \<or> d = 15 \<or> d = 16 \<or> d = 17
       \<or> d = 18 \<or> d = 19 \<or> d = 20 \<or> d = 21 \<or> d = 22 \<or> d = 23 \<or> d = 24 \<or> d = 25
       \<or> d = 26 \<or> d = 27 \<or> d = 28 \<or> d = 29 \<or> d = 30 \<or> d = 31"
  using assms by arith

lemma re_m_fmt_d:
  assumes "1 \<le> m" and "m \<le> 12"
  shows "re_seq re_m (re_seq re_dash q) (fmt_d 2 m @ CHR ''-'' # r) =
         map (\<lambda>(b, r'). ((fmt_d 2 m, ''-'', b), r')) (q r)"
  using month_cases [OF assms]
  by (elim disjE)
    (simp_all add: fmt_d_2 digit_char_def digits_def re_seq_def re_m_def re_two_def re_one_def
      re_dash_def is_digit19_def case_prod_beta)

lemma re_d_fmt_d:
  assumes "1 \<le> d" and "d \<le> 31"
  shows "first (re_d (fmt_d 2 d)) = Some (fmt_d 2 d, [])"
  using day_cases [OF assms]
  by (elim disjE)
    (simp_all add: fmt_d_2 digit_char_def digits_def re_d_def re_two_def re_one_def
      is_digit19_def is_digit_def first_def)

lemma re_ymd_fmt:
  assumes "valid_date y m d"
  shows "first (re_ymd (ymd_text y m d)) =
         Some ((fmt_d 4 y, ''-'', fmt_d 2 m, ''-'', fmt_d 2 d), [])"
proof -
  from assms have y: "y < 10000" and m: "1 \<le> m" "m \<le> 12" and d: "1 \<le> d" "d \<le> 31"
    by (auto simp: valid_date_def days_in_month_def split: if_splits)
  have "re_ymd (ymd_text y m d) =
        map (\<lambda>(b, r'). ((fmt_d 4 y, b), r'))
          (map (\<lambda>(b, r'). ((''-'', b), r'))
            (map (\<lambda>(b, r'). ((fmt_d 2 m, ''-'', b), r')) (re_d (fmt_d 2 d))))"
    unfolding re_ymd_def ymd_text_def
    by (simp add: re_seq_Y [OF y] re_seq_dash re_m_fmt_d [OF m])
  then show ?thesis
    by (simp add: first_map re_d_fmt_d [OF d])
qed

lemma strptime_ymd_text:
  assumes "valid_date y m d"
  shows "strptime_ymd (ymd_text y m d) =
         Some \<lparr>year = y, month = m, day = d, hour = 0, minute = 0, second = 0,
               microsecond = 0\<rparr>"
proof -
  from assms have y: "y < 10000" and m: "m < 100" and d: "d < 100"
    by (auto simp: valid_date_def days_in_month_def split: if_splits)
  from assms show ?thesis
    by (simp add: strptime_ymd_def re_ymd_fmt [OF assms] int_of_digits_fmt_d_4 [OF y]
        int_of_digits_fmt_d_2 [OF m] int_of_digits_fmt_d_2 [OF d] valid_date_def)
qed

lemma fmt_d_2_zero: "fmt_d 2 0 = ''00''"
  by (simp add: fmt_d_2 digit_char_zero)

lemma isoformat_midnight:
  "isoformat \<lparr>year = y, month = m, day = d, hour = 0, minute = 0, second = 0,
              microsecond = 0\<rparr> = ymd_text y m d @ ''T00:00:00''"
  by (simp add: isoformat_def ymd_text_def fmt_d_2_zero)

text \<open>
  C7. \<open>add_task\<close> with a non-empty \<open>user_id\<close> and the text \<^verbatim>\<open>YYYY-MM-DD\<close> of a date of the
  calendar stores that date at midnight, and \<open>list_tasks\<close> then renders the \<open>due_date\<close> of
  the new task as that text followed by \<^verbatim>\<open>T00:00:00\<close>. A task without a due date is
  rendered with \<open>due_date\<close> null.
\<close>

theorem due_date_round_trip:
  assumes "truthy user_id" and "valid_date y m d"
  shows "(\<exists>res db' t recs.
            add_task now db user_id title description priority (Some (ymd_text y m d)) tags =
              Inr (res, db')
          \<and> rows db' = rows db @ [t]
          \<and> t_due_date t =
              Some \<lparr>year = y, month = m, day = d, hour = 0, minute = 0, second = 0,
                    microsecond = 0\<rparr>
          \<and> list_tasks db' user_id None =
              Inr (JObj [(''status'', JStr ''success''), (''tasks'', JList recs)], db')
          \<and> recs \<noteq> [] \<and> last recs = serialize t
          \<and> field ''due_date'' (last recs) = Some (JStr (ymd_text y m d @ ''T00:00:00'')))
       \<and> (t_due_date t0 = None \<longrightarrow> field ''due_date'' (serialize t0) = Some JNull)"
proof (intro conjI impI)
  from assms(1) have u: "Some (the user_id) = user_id"
    by (cases user_id) (simp_all add: truthy_def)
  have ne: "ymd_text y m d \<noteq> []"
    by (simp add: ymd_text_def)
  let ?due = "\<lparr>year = y, month = m, day = d, hour = 0, minute = 0, second = 0,
                microsecond = 0\<rparr>"
  let ?t = "\<lparr>t_id = next_id db, t_user_id = the user_id, t_title = title,
             t_description = description, t_priority = priority, t_status = ''pending'',
             t_due_date = Some ?due, t_tags = tags, t_created_at = Some now,
             t_updated_at = None\<rparr>"
  let ?db' = "db\<lparr>rows := rows db @ [?t], next_id := Suc (next_id db)\<rparr>"
  let ?recs = "map serialize (filter (\<lambda>t. Some (t_user_id t) = user_id) (rows db)) @ [serialize ?t]"
  have a: "add_task now db user_id title description priority (Some (ymd_text y m d)) tags =
      Inr (JObj [(''status'', JStr ''success''),
                 (''message'', JStr (''Task '' @ quote @ title @ quote @ '' added.'')),
                 (''task'', JObj [(''id'', JStr (str_nat (next_id db))),
                                  (''title'', JStr title),
                                  (''status'', JStr ''pending'')])], ?db')"
    by (simp add: add_task_ok [OF assms(1)] truthy_simps ne strptime_ymd_text [OF assms(2)])
  have l: "list_tasks ?db' user_id None =
      Inr (JObj [(''status'', JStr ''success''), (''tasks'', JList ?recs)], ?db')"
    using u by (simp add: list_tasks_ok [OF assms(1)] truthy_simps)
  have f: "field ''due_date'' (serialize ?t) = Some (JStr (ymd_text y m d @ ''T00:00:00''))"
    by (simp add: field_def serialize_def isoformat_midnight)
  have r: "rows ?db' = rows db @ [?t]" "t_due_date ?t = Some ?due" "?recs \<noteq> []"
    "last ?recs = serialize ?t"
    by simp_all
  from a l f r show "\<exists>res db' t recs.
            add_task now db user_id title description priority (Some (ymd_text y m d)) tags =
              Inr (res, db')
          \<and> rows db' = rows db @ [t]
          \<and> t_due_date t =
              Some \<lparr>year = y, month = m, day = d, hour = 0, minute = 0, second = 0,
                    microsecond = 0\<rparr>
          \<and> list_tasks db' user_id None =
              Inr (JObj [(''status'', JStr ''success''), (''tasks'', JList recs)], db')
          \<and> recs \<noteq> [] \<and> last recs = serialize t
          \<and> field ''due_date'' (last recs) = Some (JStr (ymd_text y m d @ ''T00:00:00''))"
    by (metis (no_types, lifting))
next
  assume "t_due_date t0 = None"
  then show "field ''due_date'' (serialize t0) = Some JNull"
    by (simp add: field_def serialize_def)
qed

lemma ymd_text_example: "ymd_text 2024 3 15 = ''2024-03-15''"
  by (simp add: ymd_text_def fmt_d_4 fmt_d_2 digit_char_def digits_def)

lemma valid_date_example: "valid_date 2024 3 15"
  by (simp add: valid_date_def days_in_month_def)

theorem due_date_round_trip_witness:
  "truthy (Some ''alice'') \<and> valid_date 2024 3 15
   \<and> (\<exists>res db' t recs.
         add_task example_now example_store (Some ''alice'') ''taxes'' None ''medium''
           (Some ''2024-03-15'') None = Inr (res, db')
       \<and> rows db' = rows example_store @ [t]
       \<and> t_due_date t =
           Some \<lparr>year = 2024, month = 3, day = 15, hour = 0, minute = 0, second = 0,
                 microsecond = 0\<rparr>
       \<and> list_tasks db' (Some ''alice'') None =
           Inr (JObj [(''status'', JStr ''success''), (''tasks'', JList recs)], db')
       \<and> field ''due_date'' (last recs) = Some (JStr ''2024-03-15T00:00:00''))
   \<and> t_due_date example_report = None
   \<and> field ''due_date'' (serialize example_report) = Some JNull"
proof -
  have h: "truthy (Some ''alice'')"
    by (simp add: truthy_def)
  have n: "t_due_date example_report = None"
    by (simp add: example_report_def)
  from due_date_round_trip [OF h valid_date_example, of example_now example_store "''taxes''"
      None "''medium''" None example_report]
  show ?thesis
    unfolding ymd_text_example using h valid_date_example n by simp blast
qed

section \<open>Analytics\<close>

text \<open>The counts are those of the user's rows; the score is computed from them in floats.\<close>

lemma get_analytics_ok:
  assumes "truthy user_id"
  shows "get_analytics db user_id =
         Inr (JObj [(''status'', JStr ''success''),
                    (''analytics'', JObj
                       [(''tasks_total'',
                           JInt (int (length (filter (\<lambda>t. Some (t_user_id t) = user_id)
                             (rows db))))),
                        (''tasks_completed'',
                           JInt (int (length (filter (\<lambda>t. t_status t = ''completed'')
                             (filter (\<lambda>t. Some (t_user_id t) = user_id) (rows db)))))),
                        (''tasks_pending'',
                           JInt (int (length (filter (\<lambda>t. t_status t = ''pending'')
                             (filter (\<lambda>t. Some (t_user_id t) = user_id) (rows db)))))),
                        (''productivity_score'',
                           JInt (py_int
                             (if filter (\<lambda>t. Some (t_user_id t) = user_id) (rows db) \<noteq> []
                              then PFloat (float_mul
                                (truediv
                                  (int (length (filter (\<lambda>t. t_status t = ''completed'')
                                    (filter (\<lambda>t. Some (t_user_id t) = user_id) (rows db)))))
                                  (int (length (filter (\<lambda>t. Some (t_user_id t) = user_id)
                                    (rows db)))))
                                (float_of_int 100))
                              else PInt 0)))])],
              db)"
  using assms by (simp add: get_analytics_def Let_def)

lemmas float_defs =
  py_int_def int_of_float_def float_mul_def truediv_def float_of_int_def float_of_frac_def
  scaled_le_def round_half_even_def bit_length.simps

lemma score_one_of_three:
  "py_int (PFloat (float_mul (truediv 1 3) (float_of_int 100))) = 33"
  by (simp add: float_defs Let_def)

lemma score_29_of_50:
  "py_int (PFloat (float_mul (truediv 29 50) (float_of_int 100))) = 57"
  by (simp add: float_defs Let_def)

lemma fifty_store_rows:
  "filter (\<lambda>t. Some (t_user_id t) = Some ''alice'') (rows fifty_store) = rows fifty_store"
  "length (rows fifty_store) = 50"
  "length (filter (\<lambda>t. t_status t = ''completed'') (rows fifty_store)) = 29"
  "length (filter (\<lambda>t. t_status t = ''pending'') (rows fifty_store)) = 21"
  "rows fifty_store \<noteq> []"
  by (simp_all add: fifty_store_def numbered_task_def filter_map o_def)

text \<open>
  C2. For a user with fifty tasks of which twenty-nine are completed and twenty-one pending,
  \<open>get_analytics\<close> returns the three counts as claimed, but the score 57, whereas the floor
  of \<open>29 / 50 * 100\<close> is 58: the quotient \<open>29 / 50\<close> is rounded to a float just below
  \<open>0.58\<close>, its product with 100 is a float just below 58, and \<open>int\<close> cuts it to 57.
\<close>

theorem get_analytics_score_29_of_50:
  "get_analytics fifty_store (Some ''alice'') =
     Inr (JObj [(''status'', JStr ''success''),
                (''analytics'', JObj [(''tasks_total'', JInt 50),
                                      (''tasks_completed'', JInt 29),
                                      (''tasks_pending'', JInt 21),
                                      (''productivity_score'', JInt 57)])],
          fifty_store)
   \<and> spec_productivity_score 29 50 = 58"
proof -
  have h: "truthy (Some ''alice'')"
    by (simp add: truthy_def)
  have "get_analytics fifty_store (Some ''alice'') =
     Inr (JObj [(''status'', JStr ''success''),
                (''analytics'', JObj [(''tasks_total'', JInt 50),
                                      (''tasks_completed'', JInt 29),
                                      (''tasks_pending'', JInt 21),
                                      (''productivity_score'', JInt 57)])],
          fifty_store)"
    unfolding get_analytics_ok [OF h] fifty_store_rows(1)
    by (simp add: fifty_store_rows(2-5) score_29_of_50)
  then show ?thesis
    by (simp add: spec_productivity_score_def)
qed

section \<open>The table keeps its primary keys unique\<close>

lemma wf_store_empty: "wf_store \<lparr>rows = [], next_id = n\<rparr>"
  by (simp add: wf_store_def)

lemma wf_store_add_task:
  assumes "wf_store db"
    and "add_task now db user_id title description priority due_date tags = Inr (res, db')"
  shows "wf_store db'"
proof (cases "truthy user_id")
  case True
  from assms(1) have "distinct (map t_id (rows db))"
    and b: "\<forall>t\<in>set (rows db). t_id t < next_id db"
    by (simp_all add: wf_store_def list_all_iff)
  moreover from b have "next_id db \<notin> t_id ` set (rows db)"
    by auto
  ultimately show ?thesis
    using assms(2) by (auto simp: add_task_ok [OF True] wf_store_def list_all_iff less_Suc_eq)
next
  case False
  with assms(2) show ?thesis
    by (simp add: add_task_def)
qed

lemma map_t_id_session_add: "map t_id (rows (session_add t db)) = map t_id (rows db)"
  by (simp add: session_add_def o_def if_distrib [of t_id] cong: if_cong)

lemma next_id_session_add: "next_id (session_add t db) = next_id db"
  by (simp add: session_add_def)

lemma wf_store_session_add: "wf_store db \<Longrightarrow> wf_store (session_add t db)"
proof -
  assume a: "wf_store db"
  have l: "list_all (\<lambda>r. t_id r < n) xs = list_all (\<lambda>i. i < n) (map t_id xs)" for n xs
    by (simp add: list_all_iff)
  from a have "distinct (map t_id (rows (session_add t db)))"
    by (simp add: wf_store_def map_t_id_session_add)
  moreover from a have "list_all (\<lambda>i. i < next_id db) (map t_id (rows (session_add t db)))"
    unfolding map_t_id_session_add by (simp add: wf_store_def l)
  ultimately show ?thesis
    unfolding wf_store_def next_id_session_add l by simp
qed

lemma wf_store_session_delete: "wf_store db \<Longrightarrow> wf_store (session_delete t db)"
  by (simp add: wf_store_def session_delete_def distinct_map_filter list_all_iff)

lemma wf_store_update_task_by_title:
  assumes "wf_store db"
    and "update_task_by_title now db user_id current_title new_title description priority
           status due_date tags = Inr (res, db')"
  shows "wf_store db'"
  using assms
  by (auto simp: update_task_by_title_def Let_def wf_store_session_add
      split: if_splits option.splits)

lemma wf_store_delete_task:
  assumes "wf_store db" and "delete_task db user_id task_title = Inr (res, db')"
  shows "wf_store db'"
  using assms
  by (auto simp: delete_task_def wf_store_session_delete split: if_splits option.splits)

end
